theory Spec2Isabelle
  imports Main
begin

section \<open>State mappings and compute devices\<close>

text \<open>
  The values a model exports with \<open>to_dict\<close> are Python objects: scalars, strings,
  lists, dictionaries and \<open>torch.Tensor\<close> arrays. A tensor carries the device its storage
  lives on; its payload is opaque to the code under study. A dictionary is kept as an
  association list, since Python dictionaries keep insertion order and the serialiser
  preserves it.
\<close>

datatype device = CPU | CUDA nat

datatype val =
    VNone
  | VInt int
  | VStr string
  | VTensor device "int list"
  | VList "val list"
  | VDict "(string \<times> val) list"

text \<open>
  \<open>map_location dev v\<close> is \<open>v\<close> with every tensor storage remapped to \<open>dev\<close>, at any
  depth: what the keyword argument \<open>map_location\<close> of \<open>torch.load\<close> asks for.
\<close>

primrec map_location :: "device \<Rightarrow> val \<Rightarrow> val" where
  "map_location dev VNone = VNone"
| "map_location dev (VInt i) = VInt i"
| "map_location dev (VStr s) = VStr s"
| "map_location dev (VTensor d xs) = VTensor dev xs"
| "map_location dev (VList vs) = VList (map (map_location dev) vs)"
| "map_location dev (VDict kvs) = VDict (map (map_prod id (map_location dev)) kvs)"

text \<open>\<open>resident dev v\<close>: every tensor inside \<open>v\<close> lives on \<open>dev\<close>.\<close>

primrec resident :: "device \<Rightarrow> val \<Rightarrow> bool" where
  "resident dev VNone = True"
| "resident dev (VInt i) = True"
| "resident dev (VStr s) = True"
| "resident dev (VTensor d xs) = (d = dev)"
| "resident dev (VList vs) = list_all id (map (resident dev) vs)"
| "resident dev (VDict kvs) = list_all snd (map (map_prod id (resident dev)) kvs)"


section \<open>Paths, the file system and errors\<close>

text \<open>
  A \<open>pathlib.Path\<close> object: whether it is absolute, and its components. The argument of
  \<open>save\<close> and \<open>load\<close> is path-like: a string, or a path object already.
\<close>

datatype path = PosixPath bool "string list"

datatype path_like = Str string | PathObj path

fun parent :: "path \<Rightarrow> path" where
  "parent (PosixPath a ps) = PosixPath a (butlast ps)"

text \<open>
  The part of the world the two helpers touch: the directories that exist, and the
  object stored in each file written by the serialiser.
\<close>

record world =
  dirs :: "path set"
  files :: "path \<rightharpoonup> val"

text \<open>Python exceptions, as values.\<close>

datatype error =
    TypeError string
  | ValueError string
  | KeyError string
  | FileNotFoundError path
  | RuntimeError string
  | AttributeError string

section \<open>The external collaborators\<close>

text \<open>
  \<open>_models.py\<close> imports \<open>pathlib\<close> and \<open>torch\<close> and uses three things of them:
  the \<open>pathlib.Path\<close> constructor, \<open>torch.save(obj, f)\<close> and
  \<open>torch.load(f, map_location=...)\<close>. They are not code of this repository, so the
  model takes them as parameters:
  \<^item> \<open>pathlib_parse\<close> turns a string into a path object;
  \<open>pathlib.Path\<close> applied to a path object gives an equal path object back;
  \<^item> \<open>torch_save\<close> writes an object to a path: it returns or raises, and leaves a world;
  \<^item> \<open>torch_load\<close> reads the object at a path, with an optional \<open>map_location\<close>:
  it returns the object or raises.
\<close>

record externals =
  pathlib_parse :: "string \<Rightarrow> path"
  torch_save :: "val \<Rightarrow> path \<Rightarrow> world \<Rightarrow> (error + unit) \<times> world"
  torch_load :: "path \<Rightarrow> device option \<Rightarrow> world \<Rightarrow> error + val"

fun pathlib_Path :: "externals \<Rightarrow> path_like \<Rightarrow> path" where
  "pathlib_Path X (Str s) = pathlib_parse X s"
| "pathlib_Path X (PathObj q) = q"

section \<open>The Model interface\<close>

text \<open>
  A concrete subclass supplies the abstract operations. The two that \<open>save\<close> and
  \<open>load\<close> call are \<open>to_dict\<close>, an instance method (it returns the state mapping, as
  its docstring says, and, being a method of a mutable object, the instance as it
  leaves it), and \<open>from_dict\<close>, a static factory (it returns a new instance, or raises
  on a mapping it cannot rebuild from). \<open>'m\<close> is the type of the instances' internal
  state.
\<close>

record 'm model_class =
  to_dict :: "'m \<Rightarrow> val \<times> 'm"
  from_dict :: "val \<Rightarrow> error + 'm"

text \<open>
  \<^verbatim>\<open>
  def save(self, path):
      path = pathlib.Path(path)
      model_dict = self.to_dict()
      torch.save(model_dict, path)
  \<close>
  The result is what the call returns (\<open>None\<close>, or the exception raised), the instance
  and the world after the call.
\<close>

definition save ::
  "externals \<Rightarrow> 'm model_class \<Rightarrow> 'm \<Rightarrow> path_like \<Rightarrow> world \<Rightarrow> (error + unit) \<times> 'm \<times> world"
where
  "save X C self p w =
     (let path = pathlib_Path X p;
          (model_dict, self') = to_dict C self;
          (r, w') = torch_save X model_dict path w
      in (r, self', w'))"

text \<open>
  \<^verbatim>\<open>
  @classmethod
  def load(cls, path):
      path = pathlib.Path(path)
      model_dict = torch.load(path, map_location='cpu')
      return cls.from_dict(model_dict)
  \<close>
  A class method: it takes the class, no instance.
\<close>

definition load :: "externals \<Rightarrow> 'm model_class \<Rightarrow> path_like \<Rightarrow> world \<Rightarrow> error + 'm" where
  "load X cls p w =
     (let path = pathlib_Path X p in
      case torch_load X path (Some CPU) w of
        Inl e \<Rightarrow> Inl e
      | Inr model_dict \<Rightarrow> from_dict cls model_dict)"

section \<open>Abstract classes\<close>

text \<open>
  \<open>Model\<close> derives from \<open>abc.ABC\<close>, so its metaclass is \<open>ABCMeta\<close>, and so is the
  metaclass of every subclass. What a class body binds a name to is recorded with
  the decorator it carries; \<open>abstractmethod\<close> and \<open>abstractstaticmethod\<close> set the flag
  \<open>__isabstractmethod__\<close>. The constructors of built-in classes are attributes too:
  \<open>object.__new__\<close>, and the \<open>__new__\<close> a built-in class such as \<open>dict\<close> or
  \<open>BaseException\<close> has of its own.
\<close>

datatype attr =
    AbstractMethod
  | AbstractStaticMethod
  | PlainMethod
  | ClassMethod
  | StaticMethod
  | ObjectNew
  | BuiltinNew
  | BuiltinMethod

fun isabstractmethod :: "attr \<Rightarrow> bool" where
  "isabstractmethod AbstractMethod = True"
| "isabstractmethod AbstractStaticMethod = True"
| "isabstractmethod _ = False"

text \<open>
  What is known of a function's body: it is a docstring and nothing else (a call
  returns \<open>None\<close>), it has statements (what a call does is the code's affair), or the
  function is native.
\<close>

datatype body = Docstring | Stmts | Native

text \<open>
  A class body is the list of its bindings in the order of the text. The namespace
  it leaves is a dictionary, so a name bound twice has its last binding.
\<close>

type_synonym namespace = "(string \<times> attr \<times> body) list"

definition lookup :: "namespace \<Rightarrow> string \<Rightarrow> (attr \<times> body) option" where
  "lookup ns n = map_of (rev ns) n"

text \<open>
  A class: its method resolution order, each class of it with its name and its
  namespace, the class itself first; and the names \<open>ABCMeta\<close> stored in
  \<open>__abstractmethods__\<close> when the class was created (none for a class that \<open>ABCMeta\<close>
  did not create).
\<close>

type_synonym entry = "string \<times> namespace"

record pyclass =
  mro :: "entry list"
  abstractmethods :: "string list"

text \<open>Attribute lookup on a class: the first class of the order that binds the name.\<close>

fun getattr :: "entry list \<Rightarrow> string \<Rightarrow> (attr \<times> body) option" where
  "getattr [] n = None"
| "getattr (e # rest) n =
     (case lookup (snd e) n of Some v \<Rightarrow> Some v | None \<Rightarrow> getattr rest n)"

fun is_abstract_attr :: "(attr \<times> body) option \<Rightarrow> bool" where
  "is_abstract_attr None = False"
| "is_abstract_attr (Some v) = isabstractmethod (fst v)"

subsection \<open>The method resolution order\<close>

text \<open>
  The C3 merge of \<open>type.__new__\<close>: among the sequences that are not exhausted, take
  the first head that is in the tail of none, output it, remove it from the heads,
  and go on; when no head qualifies there is no consistent order.
\<close>

definition live :: "'a list list \<Rightarrow> 'a list list" where
  "live seqs = filter (\<lambda>s. s \<noteq> []) seqs"

definition good_head :: "'a list list \<Rightarrow> 'a option" where
  "good_head seqs = find (\<lambda>h. list_all (\<lambda>s. h \<notin> set (tl s)) seqs) (map hd seqs)"

definition drop_head :: "'a \<Rightarrow> 'a list list \<Rightarrow> 'a list list" where
  "drop_head h seqs = map (\<lambda>s. if hd s = h then tl s else s) seqs"

function c3_merge :: "'a list list \<Rightarrow> 'a list option" where
  "c3_merge seqs =
     (if live seqs = [] then Some []
      else case good_head (live seqs) of
             None \<Rightarrow> None
           | Some h \<Rightarrow>
               (case c3_merge (drop_head h (live seqs)) of
                  None \<Rightarrow> None
                | Some rest \<Rightarrow> Some (h # rest)))"
  by pat_completeness auto
termination
proof (relation "measure (\<lambda>seqs. sum_list (map length seqs))")
  show "wf (measure (\<lambda>seqs. sum_list (map length seqs)))" by simp
next
  fix seqs :: "'a list list" and h
  assume "live seqs \<noteq> []" and gh: "good_head (live seqs) = Some h"
  have le: "sum_list (map length (live seqs)) \<le> sum_list (map length seqs)"
    unfolding live_def by (induction seqs) auto
  from gh have "h \<in> set (map hd (live seqs))"
    unfolding good_head_def by (auto simp: find_Some_iff)
  then obtain s where s: "s \<in> set (live seqs)" "hd s = h" by auto
  have ne: "\<forall>t \<in> set (live seqs). t \<noteq> []" by (simp add: live_def)
  have "s \<in> set ss \<Longrightarrow> \<forall>t \<in> set ss. t \<noteq> [] \<Longrightarrow>
        sum_list (map length (drop_head h ss)) < sum_list (map length ss)" for ss
  proof (induction ss)
    case Nil
    then show ?case by simp
  next
    case (Cons t ss)
    have mono: "sum_list (map length (drop_head h ss)) \<le> sum_list (map length ss)"
      for ss :: "'a list list"
      unfolding drop_head_def by (induction ss) auto
    show ?case
    proof (cases "s = t")
      case True
      with Cons.prems s(2) have "length (if hd t = h then tl t else t) < length t"
        by (cases t) auto
      with mono[of ss] show ?thesis by (simp add: drop_head_def)
    next
      case False
      with Cons have "sum_list (map length (drop_head h ss)) < sum_list (map length ss)"
        by auto
      moreover have "length (if hd t = h then tl t else t) \<le> length t" by (cases t) auto
      ultimately show ?thesis by (simp add: drop_head_def)
    qed
  qed
  from this[OF s(1) ne] le
  show "(drop_head h (live seqs), seqs) \<in> measure (\<lambda>seqs. sum_list (map length seqs))"
    by simp
qed

declare c3_merge.simps [simp del]

text \<open>
  The order of a new class: the class, then the merge of the orders of its bases and
  of the list of the bases themselves.
\<close>

definition type_mro :: "entry \<Rightarrow> pyclass list \<Rightarrow> entry list option" where
  "type_mro e bases =
     (case c3_merge (map mro bases @ [concat (map (take 1 \<circ> mro) bases)]) of
        None \<Rightarrow> None
      | Some rest \<Rightarrow> Some (e # rest))"

subsection \<open>Class creation and instantiation\<close>

text \<open>
  Class creation under \<open>ABCMeta\<close>, \<open>ABCMeta.__new__(mcls, name, bases, namespace)\<close>:
  \<open>type.__new__\<close> makes the class, or raises \<open>TypeError\<close> when the bases have no
  consistent order, and then
  \<^verbatim>\<open>
  abstracts = {name for name, value in namespace.items()
               if getattr(value, "__isabstractmethod__", False)}
  for base in bases:
      for name in getattr(base, "__abstractmethods__", set()):
          value = getattr(cls, name, None)
          if getattr(value, "__isabstractmethod__", False):
              abstracts.add(name)
  cls.__abstractmethods__ = frozenset(abstracts)
  \<close>
\<close>

definition ABCMeta_new :: "string \<Rightarrow> namespace \<Rightarrow> pyclass list \<Rightarrow> error + pyclass" where
  "ABCMeta_new name ns bases =
     (case type_mro (name, ns) bases of
        None \<Rightarrow> Inl (TypeError ''cannot create a consistent method resolution order'')
      | Some m \<Rightarrow>
          (let own = filter (\<lambda>n. is_abstract_attr (lookup ns n)) (map fst ns);
               inherited = filter (\<lambda>n. is_abstract_attr (getattr m n))
                             (concat (map abstractmethods bases))
           in Inr \<lparr>mro = m, abstractmethods = remdups (own @ inherited)\<rparr>))"

text \<open>
  Calling a class with no argument. The constructor is the \<open>__new__\<close> that lookup
  finds. \<open>object.__new__\<close> raises \<open>TypeError\<close> when the class has a non-empty
  \<open>__abstractmethods__\<close>; the constructor of a built-in class makes no such check.
  Then \<open>__init__\<close> runs. The result is \<open>None\<close> where the outcome is up to the
  statements of a \<open>__new__\<close> or an \<open>__init__\<close> written in a class body, which the
  model does not have.
\<close>

definition init :: "pyclass \<Rightarrow> (error + unit) option" where
  "init c =
     (case getattr (mro c) ''__init__'' of
        Some (a, Stmts) \<Rightarrow> None
      | _ \<Rightarrow> Some (Inr ()))"

definition instantiate :: "pyclass \<Rightarrow> (error + unit) option" where
  "instantiate c =
     (case getattr (mro c) ''__new__'' of
        Some (ObjectNew, b) \<Rightarrow>
          if abstractmethods c \<noteq> []
          then Some (Inl (TypeError ''cannot instantiate abstract class''))
          else init c
      | Some (BuiltinNew, b) \<Rightarrow> init c
      | _ \<Rightarrow> None)"

text \<open>
  Calling a method on an instance of a class: \<open>AttributeError\<close> when lookup finds
  nothing, \<open>None\<close> returned when the body found is a docstring, and no answer from
  the model otherwise.
\<close>

definition call_method :: "pyclass \<Rightarrow> string \<Rightarrow> (error + val) option" where
  "call_method c n =
     (case getattr (mro c) n of
        None \<Rightarrow> Some (Inl (AttributeError n))
      | Some (a, Docstring) \<Rightarrow> Some (Inr VNone)
      | Some (a, b) \<Rightarrow> None)"

subsection \<open>The classes of the source and of the library\<close>

text \<open>\<open>object\<close> and \<open>dict\<close>, with the two attributes that instantiation looks up.\<close>

definition object_class :: pyclass where
  "object_class =
     \<lparr>mro = [(''object'',
               [(''__new__'', ObjectNew, Native), (''__init__'', BuiltinMethod, Native)])],
      abstractmethods = []\<rparr>"

definition dict_class :: pyclass where
  "dict_class =
     \<lparr>mro = (''dict'',
               [(''__new__'', BuiltinNew, Native), (''__init__'', BuiltinMethod, Native)])
             # mro object_class,
      abstractmethods = []\<rparr>"

text \<open>
  The class that a class statement made. Every class statement below succeeds, which
  is proved where the class is used.
\<close>

definition the_class :: "error + pyclass \<Rightarrow> pyclass" where
  "the_class r = (case r of Inr c \<Rightarrow> c | Inl e \<Rightarrow> object_class)"

text \<open>\<open>abc.ABC\<close>: a class with metaclass \<open>ABCMeta\<close> and no method.\<close>

definition ABC :: pyclass where
  "ABC = the_class (ABCMeta_new ''ABC'' [] [object_class])"

text \<open>
  The body of \<open>class Model(abc.ABC)\<close>, in the order of the source. The four abstract
  declarations have a docstring for a body.
\<close>

definition Model_namespace :: namespace where
  "Model_namespace =
     [(''train'', AbstractMethod, Docstring),
      (''infer'', AbstractMethod, Docstring),
      (''to_dict'', AbstractMethod, Docstring),
      (''from_dict'', AbstractStaticMethod, Docstring),
      (''save'', PlainMethod, Stmts),
      (''load'', ClassMethod, Stmts)]"

definition Model :: pyclass where
  "Model = the_class (ABCMeta_new ''Model'' Model_namespace [ABC])"

text \<open>
  A class body implements an operation when the namespace it leaves binds the name
  to something that is not flagged abstract.
\<close>

definition implements :: "namespace \<Rightarrow> string \<Rightarrow> bool" where
  "implements ns n =
     (case lookup ns n of None \<Rightarrow> False | Some v \<Rightarrow> \<not> isabstractmethod (fst v))"

text \<open>
  The subclasses of \<open>Model\<close>: \<open>Model\<close>, and every class that a class statement makes
  with a subclass of \<open>Model\<close> among its bases, whatever the other bases are.
\<close>

inductive Model_subclass :: "pyclass \<Rightarrow> bool" where
  direct: "Model_subclass Model"
| derived: "Model_subclass b \<Longrightarrow> b \<in> set bases \<Longrightarrow> ABCMeta_new name ns bases = Inr c \<Longrightarrow>
            Model_subclass c"

subsection \<open>Example subclasses\<close>

text \<open>\<open>class WithDict(Model, dict): pass\<close>\<close>

definition WithDict :: pyclass where
  "WithDict = the_class (ABCMeta_new ''WithDict'' [] [Model, dict_class])"

text \<open>
  A class that implements \<open>train\<close> and \<open>infer\<close>, a mix-in that is no model, and a class
  that derives from both and adds \<open>to_dict\<close>:
  \<open>class Half(Model)\<close>, \<open>class Logging\<close>, \<open>class Most(Half, Logging)\<close>.
\<close>

definition Half :: pyclass where
  "Half = the_class (ABCMeta_new ''Half''
     [(''train'', PlainMethod, Stmts), (''infer'', PlainMethod, Stmts)] [Model])"

definition Logging :: pyclass where
  "Logging = \<lparr>mro = (''Logging'', [(''log'', PlainMethod, Stmts)]) # mro object_class,
               abstractmethods = []\<rparr>"

definition Most :: pyclass where
  "Most = the_class (ABCMeta_new ''Most'' [(''to_dict'', PlainMethod, Stmts)] [Half, Logging])"

text \<open>The same with \<open>from_dict\<close> added: all four operations are implemented.\<close>

definition Complete :: pyclass where
  "Complete = the_class (ABCMeta_new ''Complete''
     [(''to_dict'', PlainMethod, Stmts), (''from_dict'', StaticMethod, Stmts)] [Half, Logging])"

text \<open>
  A class body that binds \<open>train\<close> twice, abstract first and plain last, and
  implements the other three.
\<close>

definition Twice :: pyclass where
  "Twice = the_class (ABCMeta_new ''Twice''
     [(''train'', AbstractMethod, Stmts), (''train'', PlainMethod, Stmts),
      (''infer'', PlainMethod, Stmts), (''to_dict'', PlainMethod, Stmts),
      (''from_dict'', StaticMethod, Stmts)] [Model])"

text \<open>The other way round: \<open>train\<close> plain first and abstract last.\<close>

definition Retracted :: pyclass where
  "Retracted = the_class (ABCMeta_new ''Retracted''
     [(''train'', PlainMethod, Stmts), (''train'', AbstractMethod, Stmts),
      (''infer'', PlainMethod, Stmts), (''to_dict'', PlainMethod, Stmts),
      (''from_dict'', StaticMethod, Stmts)] [Model])"


section \<open>What the code relies on from its collaborators\<close>

text \<open>
  The contracts of \<open>torch.save\<close> and \<open>torch.load\<close> that the properties below rest on.
  Each is a hypothesis of the theorems that need it, never an axiom.
\<close>


text \<open>With \<open>map_location\<close> given, every tensor \<open>torch.load\<close> returns is on that device.\<close>

definition honours_map_location :: "externals \<Rightarrow> bool" where
  "honours_map_location X =
     (\<forall>q dev w d. torch_load X q (Some dev) w = Inr d \<longrightarrow> resident dev d)"

text \<open>\<open>torch.load\<close> opens the file first: a path that names no file raises.\<close>

definition missing_file_raises :: "externals \<Rightarrow> bool" where
  "missing_file_raises X =
     (\<forall>q loc w. files w q = None \<longrightarrow> (\<exists>e. torch_load X q loc w = Inl e))"

text \<open>\<open>torch.save\<close> creates no directory: without the parent directory the write raises.\<close>

definition missing_parent_raises :: "externals \<Rightarrow> bool" where
  "missing_parent_raises X =
     (\<forall>d q w. parent q \<notin> dirs w \<longrightarrow> (\<exists>e w'. torch_save X d q w = (Inl e, w')))"

subsection \<open>A reference implementation of the collaborators\<close>

text \<open>
  A small file system that meets the four contracts, so that they are satisfiable
  together and the theorems can be run on concrete inputs. Strings are split at
  \<open>/\<close>; empty and \<open>.\<close> components are dropped, as \<open>pathlib\<close> does on POSIX.
\<close>

fun components :: "string \<Rightarrow> string \<Rightarrow> string list" where
  "components acc [] = [rev acc]"
| "components acc (c # cs) =
     (if c = CHR ''/'' then rev acc # components [] cs else components (c # acc) cs)"

definition ref_parse :: "string \<Rightarrow> path" where
  "ref_parse s =
     PosixPath (take 1 s = ''/'') (filter (\<lambda>c. c \<noteq> [] \<and> c \<noteq> ''.'') (components [] s))"

definition ref_torch_save :: "val \<Rightarrow> path \<Rightarrow> world \<Rightarrow> (error + unit) \<times> world" where
  "ref_torch_save d q w =
     (if parent q \<in> dirs w \<and> q \<notin> dirs w
      then (Inr (), w\<lparr>files := (files w)(q \<mapsto> d)\<rparr>)
      else (Inl (FileNotFoundError q), w))"

definition ref_torch_load :: "path \<Rightarrow> device option \<Rightarrow> world \<Rightarrow> error + val" where
  "ref_torch_load q loc w =
     (case files w q of
        None \<Rightarrow> Inl (FileNotFoundError q)
      | Some d \<Rightarrow> Inr (case loc of None \<Rightarrow> d | Some dev \<Rightarrow> map_location dev d))"

definition ref_externals :: externals where
  "ref_externals =
     \<lparr>pathlib_parse = ref_parse, torch_save = ref_torch_save, torch_load = ref_torch_load\<rparr>"

text \<open>A world with the current directory and nothing in it.\<close>

definition empty_cwd :: world where
  "empty_cwd = \<lparr>dirs = {PosixPath False []}, files = Map.empty\<rparr>"

text \<open>The same world after a model with weights on \<open>cuda:0\<close> was saved to \<open>model.pt\<close>.\<close>

definition gpu_saved :: world where
  "gpu_saved =
     \<lparr>dirs = {PosixPath False []},
      files = [PosixPath False [''model.pt''] \<mapsto>
                 VDict [(''weights'', VTensor (CUDA 0) [1, 2])]]\<rparr>"

section \<open>Contracts between to_dict and from_dict\<close>

text \<open>
  \<open>from_dict\<close> is the exact inverse of \<open>to_dict\<close> on what a model \<open>m\<close> exports:
  exporting \<open>m\<close> leaves it as it is, and rebuilding from the exported mapping gives
  \<open>m\<close> back, a model that exports that same mapping.
\<close>

definition exact_inverse :: "'m model_class \<Rightarrow> 'm \<Rightarrow> bool" where
  "exact_inverse C m =
     (snd (to_dict C m) = m \<and> from_dict C (fst (to_dict C m)) = Inr m)"

text \<open>
  \<open>from_dict\<close> is the exact inverse of \<open>to_dict\<close> at a mapping \<open>d\<close>: it returns a model
  on \<open>d\<close>, and that model exports \<open>d\<close>, arrays compared on the CPU.
\<close>

definition exact_inverse_at :: "'m model_class \<Rightarrow> val \<Rightarrow> bool" where
  "exact_inverse_at C d =
     (case from_dict C d of
        Inl e \<Rightarrow> False
      | Inr m2 \<Rightarrow> map_location CPU (fst (to_dict C m2)) = map_location CPU d)"

subsection \<open>Two example classes\<close>

text \<open>
  A class whose state is one weight array, on whatever device it is. \<open>to_dict\<close>
  returns \<open>{'weights': self.weights}\<close>; \<open>from_dict\<close> takes a mapping with the single
  key \<open>weights\<close> bound to a tensor, keeps that tensor as it comes, and raises
  \<open>KeyError\<close> on anything else. An instance is the device and the payload of the
  array.
\<close>

definition weights_to_dict :: "device \<times> int list \<Rightarrow> val \<times> (device \<times> int list)" where
  "weights_to_dict m = (VDict [(''weights'', VTensor (fst m) (snd m))], m)"

definition weights_from_dict :: "val \<Rightarrow> error + device \<times> int list" where
  "weights_from_dict d =
     (case d of
        VDict [(k, VTensor dev xs)] \<Rightarrow>
          if k = ''weights'' then Inr (dev, xs) else Inl (KeyError ''weights'')
      | _ \<Rightarrow> Inl (KeyError ''weights''))"

definition weights_model :: "(device \<times> int list) model_class" where
  "weights_model = \<lparr>to_dict = weights_to_dict, from_dict = weights_from_dict\<rparr>"

text \<open>
  A class that lives on the GPU: its weight array is kept on \<open>cuda:0\<close>. \<open>to_dict\<close>
  returns \<open>{'weights': self.weights}\<close>, a tensor on \<open>cuda:0\<close>; \<open>from_dict\<close> takes
  exactly the mappings the class exports, the single key \<open>weights\<close> bound to a tensor
  on \<open>cuda:0\<close>, and raises \<open>ValueError\<close> on anything else, a tensor on another device
  included. An instance is the payload of the array.
\<close>

definition gpu_to_dict :: "int list \<Rightarrow> val \<times> int list" where
  "gpu_to_dict m = (VDict [(''weights'', VTensor (CUDA 0) m)], m)"

definition gpu_from_dict :: "val \<Rightarrow> error + int list" where
  "gpu_from_dict d =
     (case d of
        VDict [(k, VTensor dev xs)] \<Rightarrow>
          if k = ''weights'' \<and> dev = CUDA 0 then Inr xs
          else Inl (ValueError ''weights on cuda:0 expected'')
      | _ \<Rightarrow> Inl (ValueError ''weights on cuda:0 expected''))"

definition gpu_model :: "int list model_class" where
  "gpu_model = \<lparr>to_dict = gpu_to_dict, from_dict = gpu_from_dict\<rparr>"

subsection \<open>A concrete model, from the spec\<close>

text \<open>
  The source file declares \<open>to_dict\<close> and \<open>from_dict\<close> abstract, with docstrings for
  bodies, and holds no concrete subclass. The definitions of this subsection stand
  for one; they follow the words of the spec and are used for the claim about the
  state mapping round trip only.
\<close>

text \<open>
  Modelled from the spec: the internal state of a concrete model, missing from the
  source. "A Model owns its serializable state, expressed as a mapping from string
  keys to arbitrary values".
\<close>

record state_model =
  state :: "(string \<times> val) list"

text \<open>
  Modelled from the spec: the keys a concrete \<open>from_dict\<close> expects and does not find
  in a mapping ("the deserialized mapping lacks expected keys").
\<close>

definition missing_keys :: "string list \<Rightarrow> (string \<times> val) list \<Rightarrow> string list" where
  "missing_keys ks kvs = filter (\<lambda>k. map_of kvs k = None) ks"

text \<open>
  Modelled from the spec: the \<open>to_dict\<close> of a concrete model, missing from the source.
  It "exports complete internal state needed to reconstruct an equivalent model".
\<close>

definition spec_to_dict :: "state_model \<Rightarrow> val \<times> state_model" where
  "spec_to_dict m = (VDict (state m), m)"

text \<open>
  Modelled from the spec: the \<open>from_dict\<close> of a concrete model, missing from the
  source. It "reconstructs a model purely from a previously exported state mapping",
  and a reconstruction error is "raised by the concrete from_dict when the
  deserialized mapping lacks expected keys or contains malformed values".
\<close>

fun spec_from_dict :: "string list \<Rightarrow> val \<Rightarrow> error + state_model" where
  "spec_from_dict ks (VDict kvs) =
     (case missing_keys ks kvs of
        [] \<Rightarrow> Inr \<lparr>state = kvs\<rparr>
      | k # _ \<Rightarrow> Inl (KeyError k))"
| "spec_from_dict ks _ = Inl (TypeError ''state mapping expected'')"

text \<open>
  Modelled from the spec: a concrete subclass of \<open>Model\<close>, missing from the source,
  given by the keys its state mapping must have.
\<close>

definition spec_model :: "string list \<Rightarrow> state_model model_class" where
  "spec_model ks = \<lparr>to_dict = spec_to_dict, from_dict = spec_from_dict ks\<rparr>"

text \<open>
  Modelled from the spec: the instances of that subclass, those whose state has
  every expected key.
\<close>

definition is_instance :: "string list \<Rightarrow> state_model \<Rightarrow> bool" where
  "is_instance ks m = (missing_keys ks (state m) = [])"

section \<open>Auxiliary facts\<close>


lemma resident_map_location: "resident dev (map_location dev v)"
  by (induction v) (auto simp: list_all_iff)

lemma map_location_resident: "resident dev v \<Longrightarrow> map_location dev v = v"
proof (induction v)
  case (VList vs)
  then show ?case by (auto simp: list_all_iff map_idI)
next
  case (VDict kvs)
  have "map (map_prod id (map_location dev)) kvs = map id kvs"
  proof (rule map_cong[OF refl])
    fix kv assume kv: "kv \<in> set kvs"
    obtain k v where [simp]: "kv = (k, v)" by (cases kv)
    from VDict.prems kv have "resident dev v" by (auto simp: list_all_iff)
    with VDict.IH kv have "map_location dev v = v" by auto
    then show "map_prod id (map_location dev) kv = id kv" by simp
  qed
  then show ?case by simp
qed auto

text \<open>\<open>save\<close>, component by component.\<close>

lemma save_unfold:
  "save X C m p w =
     (fst (torch_save X (fst (to_dict C m)) (pathlib_Path X p) w),
      snd (to_dict C m),
      snd (torch_save X (fst (to_dict C m)) (pathlib_Path X p) w))"
  by (simp add: save_def Let_def split_beta)

subsection \<open>The reference collaborators meet the contracts\<close>


lemma ref_honours_map_location: "honours_map_location ref_externals"
  by (auto simp: honours_map_location_def ref_externals_def ref_torch_load_def
      resident_map_location split: option.splits)

lemma ref_missing_file_raises: "missing_file_raises ref_externals"
  by (simp add: missing_file_raises_def ref_externals_def ref_torch_load_def)

lemma ref_missing_parent_raises: "missing_parent_raises ref_externals"
  by (simp add: missing_parent_raises_def ref_externals_def ref_torch_save_def)

lemma parse_model_pt: "ref_parse ''model.pt'' = PosixPath False [''model.pt'']"
  by (simp add: ref_parse_def)

lemma parse_absent_pt: "ref_parse ''absent.pt'' = PosixPath False [''absent.pt'']"
  by (simp add: ref_parse_def)

lemma parse_out_model_pt: "ref_parse ''out/model.pt'' = PosixPath False [''out'', ''model.pt'']"
  by (simp add: ref_parse_def)

lemma parse_dotted:
  "ref_parse ''/tmp//run/./model.pt'' = PosixPath True [''tmp'', ''run'', ''model.pt'']"
  by (simp add: ref_parse_def)

lemmas ref_simps =
  ref_externals_def ref_torch_save_def ref_torch_load_def
  parse_model_pt parse_absent_pt parse_out_model_pt parse_dotted
  empty_cwd_def gpu_saved_def


lemma ref_Path_model_pt:
  "pathlib_parse ref_externals ''model.pt'' = PosixPath False [''model.pt'']"
  by (simp add: ref_externals_def parse_model_pt)

lemma load_gpu_saved:
  "torch_load ref_externals (PosixPath False [''model.pt'']) (Some CPU) gpu_saved =
     Inr (VDict [(''weights'', VTensor CPU [1, 2])])"
  by (simp add: ref_simps)

subsection \<open>The example classes\<close>


lemma weights_model_exact_inverse: "exact_inverse weights_model m"
  by (simp add: exact_inverse_def weights_model_def weights_to_dict_def weights_from_dict_def)

text \<open>
  When the exported arrays are on the CPU already, device normalisation changes
  nothing: a factory that is the exact inverse on what \<open>m\<close> exports is the exact
  inverse at the mapping \<open>load\<close> hands to it.
\<close>

lemma exact_inverse_at_cpu_state:
  assumes "exact_inverse C m" and "resident CPU (fst (to_dict C m))"
  shows "exact_inverse_at C (map_location CPU (fst (to_dict C m)))"
  using assms by (simp add: exact_inverse_def exact_inverse_at_def map_location_resident)

subsection \<open>The method resolution order keeps the classes of the bases\<close>

lemma c3_merge_keeps:
  "c3_merge seqs = Some out \<Longrightarrow> s \<in> set seqs \<Longrightarrow> set s \<subseteq> set out"
proof (induction seqs arbitrary: out s rule: c3_merge.induct)
  case (1 seqs)
  show ?case
  proof (cases "live seqs = []")
    case True
    with "1.prems"(2) have "s = []" by (auto simp: live_def filter_empty_conv)
    then show ?thesis by simp
  next
    case False
    with "1.prems"(1) obtain h rest where
      h: "good_head (live seqs) = Some h"
      and rest: "c3_merge (drop_head h (live seqs)) = Some rest"
      and out: "out = h # rest"
      by (subst (asm) c3_merge.simps) (auto split: option.splits)
    show ?thesis
    proof (cases "s = []")
      case True
      then show ?thesis by simp
    next
      case ne: False
      with "1.prems"(2) have sl: "s \<in> set (live seqs)" by (simp add: live_def)
      let ?s' = "if hd s = h then tl s else s"
      from sl have "?s' \<in> set (drop_head h (live seqs))" by (auto simp: drop_head_def)
      from "1.IH"[OF False h rest this] have sub: "set ?s' \<subseteq> set rest" .
      show ?thesis
      proof (cases "hd s = h")
        case True
        with ne have "set s = insert h (set (tl s))" by (cases s) auto
        with sub True out show ?thesis by auto
      next
        case False
        with sub out show ?thesis by auto
      qed
    qed
  qed
qed

lemma type_mro_keeps:
  assumes "type_mro e bases = Some m" and "b \<in> set bases"
  shows "set (mro b) \<subseteq> set m"
proof -
  from assms(1) obtain rest where
    rest: "c3_merge (map mro bases @ [concat (map (take 1 \<circ> mro) bases)]) = Some rest"
    and m: "m = e # rest"
    by (auto simp: type_mro_def split: option.splits)
  from assms(2) have "mro b \<in> set (map mro bases @ [concat (map (take 1 \<circ> mro) bases)])"
    by simp
  from c3_merge_keeps[OF rest this] m show ?thesis by auto
qed

subsection \<open>Attribute lookup\<close>

lemma getattr_bound:
  "e \<in> set m \<Longrightarrow> lookup (snd e) n \<noteq> None \<Longrightarrow> getattr m n \<noteq> None"
  by (induction m) (auto split: option.splits)

lemma getattr_not_implemented:
  "list_all (\<lambda>e. \<not> implements (snd e) n) m \<Longrightarrow> getattr m n \<noteq> None \<Longrightarrow>
   is_abstract_attr (getattr m n)"
  by (induction m) (auto simp: implements_def split: option.splits)

lemma Model_namespace_binds:
  "n \<in> set [''train'', ''infer'', ''to_dict'', ''from_dict''] \<Longrightarrow>
   lookup Model_namespace n \<noteq> None"
  by (auto simp: lookup_def Model_namespace_def)

subsection \<open>The classes of the source, computed\<close>

lemma ABC_created: "ABCMeta_new ''ABC'' [] [object_class] = Inr ABC"
  by code_simp

lemma Model_created: "ABCMeta_new ''Model'' Model_namespace [ABC] = Inr Model"
  by code_simp

lemma Model_mro:
  "mro Model =
     [(''Model'', Model_namespace), (''ABC'', []),
      (''object'', [(''__new__'', ObjectNew, Native), (''__init__'', BuiltinMethod, Native)])]"
  by code_simp

lemma Model_abstractmethods:
  "abstractmethods Model = [''train'', ''infer'', ''to_dict'', ''from_dict'']"
  by code_simp

lemma WithDict_created: "ABCMeta_new ''WithDict'' [] [Model, dict_class] = Inr WithDict"
  by code_simp

lemma Half_created:
  "ABCMeta_new ''Half'' [(''train'', PlainMethod, Stmts), (''infer'', PlainMethod, Stmts)]
     [Model] = Inr Half"
  by code_simp

lemma Most_created:
  "ABCMeta_new ''Most'' [(''to_dict'', PlainMethod, Stmts)] [Half, Logging] = Inr Most"
  by code_simp

lemma Model_subclass_Half: "Model_subclass Half"
  by (rule derived[OF direct _ Half_created]) simp

lemma Model_subclass_Most: "Model_subclass Most"
  by (rule derived[OF Model_subclass_Half _ Most_created]) simp

lemma Model_subclass_WithDict: "Model_subclass WithDict"
  by (rule derived[OF direct _ WithDict_created]) simp

text \<open>
  The bases of \<open>Most\<close> come in the order Python gives them, the mix-in after
  \<open>abc.ABC\<close>.
\<close>

lemma Most_mro: "map fst (mro Most) = [''Most'', ''Half'', ''Model'', ''ABC'', ''Logging'', ''object'']"
  by code_simp

text \<open>Bases in an order that contradicts the hierarchy are refused, as in Python.\<close>

lemma inconsistent_bases_refused:
  "ABCMeta_new ''Wrong'' [] [Model, Half] =
     Inl (TypeError ''cannot create a consistent method resolution order'')"
  by code_simp

text \<open>A subclass that implements all four operations can be instantiated.\<close>

lemma complete_subclass_instantiable: "instantiate Complete = Some (Inr ())"
  by code_simp

text \<open>
  The last binding of a name counts: the class that binds \<open>train\<close> abstract and then
  plain is complete, the one that binds it plain and then abstract is not.
\<close>

lemma last_binding_counts:
  "implements (snd (hd (mro Twice))) ''train'' \<and>
   instantiate Twice = Some (Inr ()) \<and>
   \<not> implements (snd (hd (mro Retracted))) ''train'' \<and>
   instantiate Retracted = Some (Inl (TypeError ''cannot instantiate abstract class''))"
  by code_simp

subsection \<open>Abstract names in the subclasses of Model\<close>

lemma ABCMeta_new_Inr:
  assumes "ABCMeta_new name ns bases = Inr c"
  shows "type_mro (name, ns) bases = Some (mro c)"
    and "{n \<in> set (concat (map abstractmethods bases)). is_abstract_attr (getattr (mro c) n)}
           \<subseteq> set (abstractmethods c)"
  using assms by (auto simp: ABCMeta_new_def Let_def split: option.splits)

text \<open>
  Every subclass of \<open>Model\<close> has \<open>Model\<close> in its order, and each of the four names
  that no class of the order implements is in its \<open>__abstractmethods__\<close>. By
  induction on how the subclass was made.
\<close>

lemma Model_subclass_invariant:
  assumes "Model_subclass c"
  shows "(''Model'', Model_namespace) \<in> set (mro c) \<and>
         (\<forall>n. n \<in> set [''train'', ''infer'', ''to_dict'', ''from_dict''] \<longrightarrow>
              list_all (\<lambda>e. \<not> implements (snd e) n) (mro c) \<longrightarrow>
              n \<in> set (abstractmethods c))"
  using assms
proof (induction rule: Model_subclass.induct)
  case direct
  show ?case by (simp add: Model_mro Model_abstractmethods)
next
  case (derived b bases name ns c)
  from ABCMeta_new_Inr(1)[OF derived.hyps(3)] derived.hyps(2)
  have sub: "set (mro b) \<subseteq> set (mro c)" by (rule type_mro_keeps)
  with derived.IH have mem: "(''Model'', Model_namespace) \<in> set (mro c)" by auto
  have "n \<in> set (abstractmethods c)"
    if n: "n \<in> set [''train'', ''infer'', ''to_dict'', ''from_dict'']"
      and omit: "list_all (\<lambda>e. \<not> implements (snd e) n) (mro c)" for n
  proof -
    from omit sub have "list_all (\<lambda>e. \<not> implements (snd e) n) (mro b)"
      by (auto simp: list_all_iff)
    with derived.IH n have "n \<in> set (abstractmethods b)" by blast
    with derived.hyps(2) have inb: "n \<in> set (concat (map abstractmethods bases))" by auto
    from mem Model_namespace_binds[OF n] have "getattr (mro c) n \<noteq> None"
      by (intro getattr_bound[of "(''Model'', Model_namespace)"]) auto
    with omit have "is_abstract_attr (getattr (mro c) n)" by (rule getattr_not_implemented)
    with inb ABCMeta_new_Inr(2)[OF derived.hyps(3)] show ?thesis by blast
  qed
  with mem show ?case by blast
qed


section \<open>Persistence\<close>




text \<open>
  Claim C2: for every model \<open>m\<close> and every path-like \<open>p\<close>, \<open>m.save(p)\<close> normalises
  \<open>p\<close> to a path object, calls \<open>m.to_dict()\<close> and hands the mapping it returned, with
  that path, to the serialiser's write; nothing else happens. So the call returns
  \<open>r\<close>, leaves the instance \<open>m'\<close> and the world \<open>w'\<close> exactly when \<open>to_dict\<close> returned
  some mapping \<open>d\<close> and left \<open>m'\<close>, and the write of \<open>d\<close> to the normalised path
  returned \<open>r\<close> and left \<open>w'\<close>. Saving to a string is saving to its path object.
\<close>

theorem save_steps:
  "(save X C m p w = (r, m', w') \<longleftrightarrow>
      (\<exists>d. to_dict C m = (d, m') \<and> torch_save X d (pathlib_Path X p) w = (r, w'))) \<and>
   save X C m (Str s) w = save X C m (PathObj (pathlib_Path X (Str s))) w"
  by (auto simp: save_def Let_def split: prod.splits)

text \<open>
  On the reference file system: saving the GPU model under a string with a doubled
  separator and a \<open>.\<close> component is saving it under the normalised path object.
\<close>

theorem save_steps_witness:
  "save ref_externals gpu_model [1, 2] (Str ''/tmp//run/./model.pt'') empty_cwd =
   save ref_externals gpu_model [1, 2]
     (PathObj (PosixPath True [''tmp'', ''run'', ''model.pt''])) empty_cwd"
  using save_steps[of ref_externals gpu_model "[1, 2]" "Str ''/tmp//run/./model.pt''" empty_cwd
      "Inr ()" "[1, 2]" empty_cwd "''/tmp//run/./model.pt''"]
  by (simp add: ref_externals_def parse_dotted)

text \<open>
  Claim C3: for every concrete class \<open>C\<close> and every path-like \<open>p\<close>, \<open>C.load(p)\<close>, which
  takes no instance, normalises \<open>p\<close> to a path object, reads the state mapping at that
  path with \<open>map_location\<close> set to the CPU, and returns what \<open>C\<close>'s own \<open>from_dict\<close>
  returns on that mapping, whatever the mapping is; an error of the read is the
  error of \<open>load\<close>. Loading from a string is loading from its path object.
\<close>

theorem load_steps:
  "load X C p w =
     (case torch_load X (pathlib_Path X p) (Some CPU) w of
        Inl e \<Rightarrow> Inl e
      | Inr d \<Rightarrow> from_dict C d) \<and>
   load X C (Str s) w = load X C (PathObj (pathlib_Path X (Str s))) w"
  by (simp add: load_def)

text \<open>
  On the reference file system: the mapping stored in \<open>model.pt\<close> reaches the factory
  of each class with its array on the CPU, and the factory's answer, a model or an
  error, is the answer of \<open>load\<close>.
\<close>

theorem load_steps_witness:
  "load ref_externals weights_model (Str ''model.pt'') gpu_saved =
     from_dict weights_model (VDict [(''weights'', VTensor CPU [1, 2])]) \<and>
   load ref_externals gpu_model (Str ''model.pt'') gpu_saved =
     from_dict gpu_model (VDict [(''weights'', VTensor CPU [1, 2])])"
  using load_steps[of ref_externals weights_model "Str ''model.pt''" gpu_saved "''model.pt''"]
    load_steps[of ref_externals gpu_model "Str ''model.pt''" gpu_saved "''model.pt''"]
  by (simp add: ref_Path_model_pt load_gpu_saved)

text \<open>
  Claim C4: whatever device the arrays of a saved model were on, every array of the
  state mapping that \<open>load\<close> produces and hands to \<open>from_dict\<close> is on the CPU: either
  the read raises and \<open>load\<close> raises the same error, or \<open>load\<close> returns what
  \<open>from_dict\<close> returns on a mapping all of whose arrays are on the CPU. The
  serialiser is taken to honour \<open>map_location\<close>.
\<close>

theorem load_state_on_cpu:
  assumes "honours_map_location X"
  shows "case torch_load X (pathlib_Path X p) (Some CPU) w of
           Inl e \<Rightarrow> load X C p w = Inl e
         | Inr d \<Rightarrow> resident CPU d \<and> load X C p w = from_dict C d"
  using assms by (auto simp: honours_map_location_def load_def split: sum.splits)

text \<open>A file saved from \<open>cuda:0\<close> loads into a model whose array is on the CPU.\<close>

theorem load_state_on_cpu_witness:
  "honours_map_location ref_externals \<and>
   files gpu_saved (PosixPath False [''model.pt'']) =
     Some (VDict [(''weights'', VTensor (CUDA 0) [1, 2])]) \<and>
   resident CPU (VDict [(''weights'', VTensor CPU [1, 2])]) \<and>
   load ref_externals weights_model (Str ''model.pt'') gpu_saved = Inr (CPU, [1, 2])"
proof -
  let ?d = "VDict [(''weights'', VTensor CPU [1, 2])]"
  from load_state_on_cpu[OF ref_honours_map_location,
      where p = "Str ''model.pt''" and w = gpu_saved and C = weights_model]
  have "resident CPU ?d \<and>
        load ref_externals weights_model (Str ''model.pt'') gpu_saved =
          from_dict weights_model ?d"
    by (simp add: ref_Path_model_pt load_gpu_saved)
  moreover have "from_dict weights_model ?d = Inr (CPU, [1, 2])"
    by (simp add: weights_model_def weights_from_dict_def)
  moreover have "files gpu_saved (PosixPath False [''model.pt'']) =
                   Some (VDict [(''weights'', VTensor (CUDA 0) [1, 2])])"
    by (simp add: gpu_saved_def)
  ultimately show ?thesis using ref_honours_map_location by simp
qed

section \<open>The state mapping round trip\<close>

text \<open>
  Claim C5: for every concrete model \<open>m\<close>, with \<open>d = m.to_dict()\<close>, \<open>from_dict(d)\<close>
  returns a model whose \<open>to_dict()\<close> equals \<open>d\<close>. The source declares the two
  operations and implements neither, so the statement is about the concrete model
  written from the spec, for any list of expected keys.
\<close>

theorem from_dict_inverts_to_dict:
  assumes "is_instance ks m" and "to_dict (spec_model ks) m = (d, m')"
  shows "\<exists>m2. from_dict (spec_model ks) d = Inr m2 \<and> fst (to_dict (spec_model ks) m2) = d"
  using assms by (auto simp: is_instance_def spec_model_def spec_to_dict_def)

text \<open>A model with a weight array and a step counter, exported and rebuilt.\<close>

theorem from_dict_inverts_to_dict_witness:
  "is_instance [''weights'', ''steps'']
     \<lparr>state = [(''weights'', VTensor CPU [3, 4]), (''steps'', VInt 7)]\<rparr> \<and>
   from_dict (spec_model [''weights'', ''steps''])
     (VDict [(''weights'', VTensor CPU [3, 4]), (''steps'', VInt 7)]) =
     Inr \<lparr>state = [(''weights'', VTensor CPU [3, 4]), (''steps'', VInt 7)]\<rparr> \<and>
   fst (to_dict (spec_model [''weights'', ''steps''])
     \<lparr>state = [(''weights'', VTensor CPU [3, 4]), (''steps'', VInt 7)]\<rparr>) =
     VDict [(''weights'', VTensor CPU [3, 4]), (''steps'', VInt 7)]"
proof -
  let ?ks = "[''weights'', ''steps'']"
  let ?kvs = "[(''weights'', VTensor CPU [3, 4]), (''steps'', VInt 7)]"
  have inst: "is_instance ?ks \<lparr>state = ?kvs\<rparr>"
    by (simp add: is_instance_def missing_keys_def)
  have td: "to_dict (spec_model ?ks) \<lparr>state = ?kvs\<rparr> = (VDict ?kvs, \<lparr>state = ?kvs\<rparr>)"
    by (simp add: spec_model_def spec_to_dict_def)
  from from_dict_inverts_to_dict[OF inst td] obtain m2 where
    m2: "from_dict (spec_model ?ks) (VDict ?kvs) = Inr m2"
      "fst (to_dict (spec_model ?ks) m2) = VDict ?kvs"
    by blast
  from m2(2) have "m2 = \<lparr>state = ?kvs\<rparr>"
    by (simp add: spec_model_def spec_to_dict_def)
  with m2 inst show ?thesis by simp
qed

section \<open>Completeness of the interface\<close>

text \<open>
  Claim C6, as stated: every subclass of \<open>Model\<close> that omits an implementation of one
  of \<open>train\<close>, \<open>infer\<close>, \<open>to_dict\<close>, \<open>from_dict\<close> fails to instantiate, at
  construction or at the first call of the missing operation, and never gives an
  instance that silently does nothing. It fails for \<open>class WithDict(Model, dict)\<close>
  with an empty body: the class is a subclass of \<open>Model\<close>, no class of its order
  implements any of the four and all four are in its \<open>__abstractmethods__\<close>, yet
  its constructor is that of \<open>dict\<close>, which makes no check, so instantiation returns
  an instance; and \<open>train\<close>, \<open>infer\<close> and \<open>to_dict\<close> called on it run the docstring
  bodies of \<open>Model\<close> and return \<open>None\<close>.
\<close>

theorem incomplete_subclass_counterexample:
  "ABCMeta_new ''WithDict'' [] [Model, dict_class] = Inr WithDict \<and>
   Model_subclass WithDict \<and>
   list_all (\<lambda>n. list_all (\<lambda>e. \<not> implements (snd e) n) (mro WithDict))
     [''train'', ''infer'', ''to_dict'', ''from_dict''] \<and>
   abstractmethods WithDict = [''train'', ''infer'', ''to_dict'', ''from_dict''] \<and>
   instantiate WithDict = Some (Inr ()) \<and>
   call_method WithDict ''train'' = Some (Inr VNone) \<and>
   call_method WithDict ''infer'' = Some (Inr VNone) \<and>
   call_method WithDict ''to_dict'' = Some (Inr VNone)"
proof -
  have "list_all (\<lambda>n. list_all (\<lambda>e. \<not> implements (snd e) n) (mro WithDict))
          [''train'', ''infer'', ''to_dict'', ''from_dict'']"
    by code_simp
  moreover have "abstractmethods WithDict = [''train'', ''infer'', ''to_dict'', ''from_dict'']"
    by code_simp
  moreover have "instantiate WithDict = Some (Inr ())"
    by code_simp
  moreover have "call_method WithDict ''train'' = Some (Inr VNone)"
    and "call_method WithDict ''infer'' = Some (Inr VNone)"
    and "call_method WithDict ''to_dict'' = Some (Inr VNone)"
    by code_simp+
  ultimately show ?thesis
    using WithDict_created Model_subclass_WithDict by simp
qed

text \<open>
  Claim C6, amended: for every subclass of \<open>Model\<close> made by class statements under
  \<open>ABCMeta\<close>, with any number of bases, whose instances are constructed by
  \<open>object.__new__\<close> (looking \<open>__new__\<close> up on the class finds that of \<open>object\<close>: no
  built-in base such as \<open>dict\<close> or \<open>Exception\<close> brings a constructor of its own and no
  class body defines one), and in whose method resolution order no class implements
  one of \<open>train\<close>, \<open>infer\<close>, \<open>to_dict\<close>, \<open>from_dict\<close>, attempting to instantiate the
  subclass fails at construction with \<open>TypeError\<close>; so no instance is produced that
  could silently behave as a no-op.
\<close>

theorem incomplete_subclass_not_instantiable:
  assumes "Model_subclass c"
    and "getattr (mro c) ''__new__'' = Some (ObjectNew, Native)"
    and "n \<in> set [''train'', ''infer'', ''to_dict'', ''from_dict'']"
    and "list_all (\<lambda>e. \<not> implements (snd e) n) (mro c)"
  shows "instantiate c = Some (Inl (TypeError ''cannot instantiate abstract class''))"
proof -
  from Model_subclass_invariant[OF assms(1)] assms(3,4)
  have "n \<in> set (abstractmethods c)" by blast
  then have "abstractmethods c \<noteq> []" by auto
  with assms(2) show ?thesis by (simp add: instantiate_def)
qed

text \<open>
  \<open>class Most(Half, Logging)\<close>: between them the classes implement \<open>train\<close>, \<open>infer\<close>
  and \<open>to_dict\<close> and leave \<open>from_dict\<close> out.
\<close>

theorem incomplete_subclass_witness:
  "Model_subclass Most \<and>
   getattr (mro Most) ''__new__'' = Some (ObjectNew, Native) \<and>
   ''from_dict'' \<in> set [''train'', ''infer'', ''to_dict'', ''from_dict''] \<and>
   list_all (\<lambda>e. \<not> implements (snd e) ''from_dict'') (mro Most) \<and>
   instantiate Most = Some (Inl (TypeError ''cannot instantiate abstract class''))"
proof -
  have new: "getattr (mro Most) ''__new__'' = Some (ObjectNew, Native)"
    by code_simp
  have n: "''from_dict'' \<in> set [''train'', ''infer'', ''to_dict'', ''from_dict'']"
    by simp
  have omit: "list_all (\<lambda>e. \<not> implements (snd e) ''from_dict'') (mro Most)"
    by code_simp
  from incomplete_subclass_not_instantiable[OF Model_subclass_Most new n omit]
    Model_subclass_Most new n omit
  show ?thesis by blast
qed

section \<open>Errors of the two helpers\<close>

text \<open>
  Claim C7: for every path \<open>p\<close> that names no existing file, \<open>load(p)\<close> raises the
  error that the read raised, and returns no model. The serialiser is taken to
  raise on a path that names no file.
\<close>

theorem load_missing_file:
  assumes "missing_file_raises X" and "files w (pathlib_Path X p) = None"
  shows "(\<exists>e. torch_load X (pathlib_Path X p) (Some CPU) w = Inl e \<and> load X C p w = Inl e) \<and>
         (\<forall>m. load X C p w \<noteq> Inr m)"
proof -
  from assms obtain e where "torch_load X (pathlib_Path X p) (Some CPU) w = Inl e"
    unfolding missing_file_raises_def by blast
  then show ?thesis by (simp add: load_def)
qed

text \<open>Loading \<open>absent.pt\<close> from an empty directory.\<close>

theorem load_missing_file_witness:
  "missing_file_raises ref_externals \<and>
   files empty_cwd (pathlib_Path ref_externals (Str ''absent.pt'')) = None \<and>
   load ref_externals weights_model (Str ''absent.pt'') empty_cwd =
     Inl (FileNotFoundError (PosixPath False [''absent.pt'']))"
proof -
  have nofile: "files empty_cwd (pathlib_Path ref_externals (Str ''absent.pt'')) = None"
    by (simp add: empty_cwd_def)
  from load_missing_file[OF ref_missing_file_raises nofile, of weights_model]
  obtain e where
    rd: "torch_load ref_externals (pathlib_Path ref_externals (Str ''absent.pt''))
           (Some CPU) empty_cwd = Inl e"
    and ld: "load ref_externals weights_model (Str ''absent.pt'') empty_cwd = Inl e"
    by blast
  from rd have "e = FileNotFoundError (PosixPath False [''absent.pt''])"
    by (simp add: ref_simps)
  with ld ref_missing_file_raises nofile show ?thesis by simp
qed

text \<open>
  Claim C8: for every model \<open>m\<close> and every path \<open>p\<close> whose parent directory does not
  exist, \<open>m.save(p)\<close> raises: the write raises an error \<open>e\<close> and leaves a world
  \<open>w'\<close>, and \<open>save\<close> raises that same \<open>e\<close> and leaves that same \<open>w'\<close>, so it creates
  no directory, tries no second time and cleans nothing up. The serialiser is taken
  to raise when the parent directory is missing.
\<close>

theorem save_missing_parent:
  assumes "missing_parent_raises X" and "parent (pathlib_Path X p) \<notin> dirs w"
  shows "\<exists>e w'. torch_save X (fst (to_dict C m)) (pathlib_Path X p) w = (Inl e, w') \<and>
           save X C m p w = (Inl e, snd (to_dict C m), w')"
proof -
  from assms obtain e w' where
    "torch_save X (fst (to_dict C m)) (pathlib_Path X p) w = (Inl e, w')"
    unfolding missing_parent_raises_def by blast
  then show ?thesis by (simp add: save_unfold)
qed

text \<open>Saving to \<open>out/model.pt\<close> where no directory \<open>out\<close> exists: the world stays as it was.\<close>

theorem save_missing_parent_witness:
  "missing_parent_raises ref_externals \<and>
   parent (pathlib_Path ref_externals (Str ''out/model.pt'')) \<notin> dirs empty_cwd \<and>
   save ref_externals gpu_model [1, 2] (Str ''out/model.pt'') empty_cwd =
     (Inl (FileNotFoundError (PosixPath False [''out'', ''model.pt''])), [1, 2], empty_cwd)"
proof -
  have noparent: "parent (pathlib_Path ref_externals (Str ''out/model.pt'')) \<notin> dirs empty_cwd"
    by (simp add: ref_externals_def parse_out_model_pt empty_cwd_def)
  from save_missing_parent[OF ref_missing_parent_raises noparent, of gpu_model "[1, 2]"]
  obtain e w' where
    ts: "torch_save ref_externals (fst (to_dict gpu_model [1, 2]))
           (pathlib_Path ref_externals (Str ''out/model.pt'')) empty_cwd = (Inl e, w')"
    and sv: "save ref_externals gpu_model [1, 2] (Str ''out/model.pt'') empty_cwd =
           (Inl e, snd (to_dict gpu_model [1, 2]), w')"
    by blast
  from ts have "e = FileNotFoundError (PosixPath False [''out'', ''model.pt'']) \<and> w' = empty_cwd"
    by (auto simp: ref_externals_def parse_out_model_pt ref_torch_save_def split: if_splits)
  with sv have "save ref_externals gpu_model [1, 2] (Str ''out/model.pt'') empty_cwd =
     (Inl (FileNotFoundError (PosixPath False [''out'', ''model.pt''])), [1, 2], empty_cwd)"
    by (simp add: gpu_model_def gpu_to_dict_def)
  with ref_missing_parent_raises noparent show ?thesis by simp
qed

section \<open>What save leaves alone\<close>

text \<open>
  Claim C9: \<open>save\<close> does not change the model. When the \<open>to_dict\<close> of the class
  leaves \<open>m\<close> as it is, \<open>m\<close> after \<open>m.save(p)\<close> is \<open>m\<close>, whether the write returned or
  raised, and \<open>m.to_dict()\<close> gives the same mapping after the call as before.
\<close>

theorem save_frame:
  assumes "snd (to_dict C m) = m"
  shows "fst (snd (save X C m p w)) = m \<and>
         fst (to_dict C (fst (snd (save X C m p w)))) = fst (to_dict C m)"
  using assms by (simp add: save_unfold)

text \<open>The GPU model is the same after a save that returns and after one that raises.\<close>

theorem save_frame_witness:
  "snd (to_dict gpu_model [1, 2]) = [1, 2] \<and>
   fst (snd (save ref_externals gpu_model [1, 2] (Str ''model.pt'') empty_cwd)) = [1, 2] \<and>
   fst (snd (save ref_externals gpu_model [1, 2] (Str ''out/model.pt'') empty_cwd)) = [1, 2]"
proof -
  have pure: "snd (to_dict gpu_model [1, 2]) = [1, 2]"
    by (simp add: gpu_model_def gpu_to_dict_def)
  from save_frame[OF pure, of ref_externals "Str ''model.pt''" empty_cwd]
    save_frame[OF pure, of ref_externals "Str ''out/model.pt''" empty_cwd] pure
  show ?thesis by blast
qed

section \<open>The base class\<close>

text \<open>
  Claim C10: \<open>Model\<close> itself cannot be instantiated. Its body declares \<open>train\<close>,
  \<open>infer\<close>, \<open>to_dict\<close> and \<open>from_dict\<close> abstract, so the four names are its
  \<open>__abstractmethods__\<close>; its only base is \<open>abc.ABC\<close>, so its constructor is
  \<open>object.__new__\<close>, and construction raises \<open>TypeError\<close>.
\<close>

theorem Model_not_instantiable:
  "ABCMeta_new ''Model'' Model_namespace [ABC] = Inr Model \<and>
   abstractmethods Model = [''train'', ''infer'', ''to_dict'', ''from_dict''] \<and>
   instantiate Model = Some (Inl (TypeError ''cannot instantiate abstract class''))"
  by code_simp

end
